theory Spec2Isabelle
  imports Main "HOL-Library.Sublist"
begin

section \<open>nlpia.web: URL handling and the Google Drive download sequence\<close>

text \<open>
  A shallow embedding of \<^verbatim>\<open>src/nlpia/web.py\<close>. Python strings are modelled as
  \<^typ>\<open>string\<close> (code points below 256), \<^verbatim>\<open>None\<close> as \<^term>\<open>None\<close>, and every
  exception as a value of \<open>py_error\<close> on the left of a sum.
\<close>

subsection \<open>Exceptions and Python string primitives\<close>

datatype py_error =
    NameError string
  | ValueError
  | IndexError
  | AttributeError
  | TypeError
  | OSError
  | ConnectionError
  | LibraryError string

text \<open>
  \<^verbatim>\<open>sub in s\<close> on strings is \<^term>\<open>sublist sub s\<close>, \<^verbatim>\<open>s.startswith(p)\<close> is
  \<^term>\<open>prefix p s\<close> and \<^verbatim>\<open>s.endswith(p)\<close> is \<^term>\<open>suffix p s\<close>.

  \<^verbatim>\<open>s.split(sep)\<close> scans from the left and cuts at every occurrence of \<open>sep\<close> it
  meets, resuming after the occurrence; \<open>acc\<close> holds the current field reversed.
  Python raises \<^verbatim>\<open>ValueError\<close> on an empty separator.
\<close>

function split_from :: "string \<Rightarrow> string \<Rightarrow> string \<Rightarrow> string list" where
  "split_from sep acc [] = [rev acc]"
| "split_from sep acc (c # cs) =
     (if sep \<noteq> [] \<and> prefix sep (c # cs)
      then rev acc # split_from sep [] (drop (length sep) (c # cs))
      else split_from sep (c # acc) cs)"
  by pat_completeness auto
termination
  by (relation "measure (\<lambda>(sep, acc, s). length s)") auto

definition py_split :: "string \<Rightarrow> string \<Rightarrow> py_error + string list" where
  "py_split sep s = (if sep = [] then Inl ValueError else Inr (split_from sep [] s))"

text \<open>\<^verbatim>\<open>xs[-1]\<close>: the last element, \<^verbatim>\<open>IndexError\<close> on an empty list.\<close>

definition py_last :: "'a list \<Rightarrow> py_error + 'a" where
  "py_last xs = (case xs of [] \<Rightarrow> Inl IndexError | _ # _ \<Rightarrow> Inr (last xs))"

text \<open>\<^verbatim>\<open>s.split(sep)[-1]\<close>\<close>

definition split_last :: "string \<Rightarrow> string \<Rightarrow> py_error + string" where
  "split_last sep s = (case py_split sep s of Inl e \<Rightarrow> Inl e | Inr parts \<Rightarrow> py_last parts)"

subsection \<open>Drive-ID extraction (\<^verbatim>\<open>download_file_from_google_drive\<close>, lines 246--251)\<close>

text \<open>
  \<^verbatim>\<open>
    if '&id=' in driveid:
        driveid = driveid.split('&id=')[-1]
    if '?id=' in driveid:
        driveid = driveid.split('?id=')[-1]
  \<close>
  Two consecutive \<^verbatim>\<open>if\<close> statements: the second tests the value the first left in
  \<open>driveid\<close>.
\<close>

definition extract_driveid :: "string \<Rightarrow> py_error + string" where
  "extract_driveid driveid =
     (case (if sublist ''&id='' driveid then split_last ''&id='' driveid else Inr driveid) of
        Inl e \<Rightarrow> Inl e
      | Inr driveid1 \<Rightarrow>
          (if sublist ''?id='' driveid1 then split_last ''?id='' driveid1 else Inr driveid1))"

text \<open>
  The specification's wording, for comparison with the code: \<open>t\<close> is the substring of
  \<open>s\<close> after the last occurrence of \<open>sep\<close> when \<open>s\<close> ends with \<open>sep\<close> followed by \<open>t\<close>
  and no occurrence of \<open>sep\<close> starts later in \<open>s\<close>.
\<close>

definition after_last_occurrence :: "string \<Rightarrow> string \<Rightarrow> string \<Rightarrow> bool" where
  "after_last_occurrence sep s t \<longleftrightarrow> suffix (sep @ t) s \<and> \<not> sublist sep (tl (sep @ t))"

subsection \<open>Stripping\<close>

text \<open>
  \<^verbatim>\<open>s.rstrip(chars)\<close> removes the longest suffix made of characters satisfying \<open>P\<close>;
  \<^verbatim>\<open>s.rstrip()\<close> and \<^verbatim>\<open>s.strip()\<close> use \<^verbatim>\<open>str.isspace\<close>, which on code points below
  256 holds for 9--13, 28--32, 133 and 160.
\<close>

definition py_isspace :: "char \<Rightarrow> bool" where
  "py_isspace c \<longleftrightarrow> (of_char c :: nat) \<in> set [9, 10, 11, 12, 13, 28, 29, 30, 31, 32, 133, 160]"

definition rstrip_where :: "(char \<Rightarrow> bool) \<Rightarrow> string \<Rightarrow> string" where
  "rstrip_where P s = rev (dropWhile P (rev s))"

definition py_rstrip :: "string \<Rightarrow> string" where
  "py_rstrip s = rstrip_where py_isspace s"

definition py_rstrip_chars :: "string \<Rightarrow> string \<Rightarrow> string" where
  "py_rstrip_chars chars s = rstrip_where (\<lambda>c. c \<in> set chars) s"

definition py_strip :: "string \<Rightarrow> string" where
  "py_strip s = dropWhile py_isspace (py_rstrip s)"

subsection \<open>The module's global namespace\<close>

text \<open>
  A free name in a function body is looked up in the module's globals when the line runs,
  and \<^verbatim>\<open>NameError\<close> is raised when it is bound nowhere. The functions below take
  the namespace as a parameter \<open>g\<close> and resolve through it the names that no import,
  assignment or \<^verbatim>\<open>def\<close> of the module binds; \<open>web_globals\<close> is the namespace the
  module text itself creates (none of the names resolved through \<open>g\<close> is a builtin).
  The names the module does bind to collaborators (\<^verbatim>\<open>urlparse\<close>, \<^verbatim>\<open>requests\<close>,
  \<^verbatim>\<open>expand_filepath\<close>, ...) are the fields of \<open>ext\<close> below.
\<close>

datatype pyval = PyStr string | PyInt int | PyObj

type_synonym namespace = "string \<Rightarrow> pyval option"

definition lookup_name :: "namespace \<Rightarrow> string \<Rightarrow> py_error + pyval" where
  "lookup_name g n = (case g n of None \<Rightarrow> Inl (NameError n) | Some v \<Rightarrow> Inr v)"

text \<open>Evaluating a tuple of names, left to right: the first unbound one raises.\<close>

fun lookup_names :: "namespace \<Rightarrow> string list \<Rightarrow> py_error + pyval list" where
  "lookup_names g [] = Inr []"
| "lookup_names g (n # ns) =
     (case lookup_name g n of
        Inl e \<Rightarrow> Inl e
      | Inr v \<Rightarrow> (case lookup_names g ns of Inl e \<Rightarrow> Inl e | Inr vs \<Rightarrow> Inr (v # vs)))"

definition GOOGLE_DRIVE_PREFIX :: string where
  "GOOGLE_DRIVE_PREFIX = ''https://drive.google.com/open?id=''"

definition GOOGLE_DRIVEID_FILENAMES :: string where
  "GOOGLE_DRIVEID_FILENAMES = concat (map (\<lambda>l. l @ [CHR 0x0A])
     [[],
      ''1VWkj1oQS2RUhyJXckx3OaDYs5fx2mMCq VGG_ILSVRC2016_SSD_300x300_iter_440000.h5'',
      ''1LcBPsd9CJbuBw4KiSuE1o1fMA-Pz2Zvw VGG_ilsvrc15_SSD_500x500_iter_480000.h5'',
      ''1IJWZKmjkcFMlvaz2gYukzFx4d6mH3py5 VGG_coco_SSD_512x512_iter_360000.h5'',
      ''1vmEF7FUsWfHquXyCqO17UaXOPpRbwsdj VGG_coco_SSD_300x300_iter_400000.h5'',
      ''121-kCXaOHOkJE_Kf5lKcJvC_5q1fYb_q VGG_VOC0712_SSD_300x300_iter_120000.h5'',
      ''19NIa0baRCFYT3iRxQkOKCD7CpN6BFO8p VGG_VOC0712_SSD_512x512_iter_120000.h5'',
      ''1M99knPZ4DpY9tI60iZqxXsAxX2bYWDvZ VGG_VOC0712Plus_SSD_300x300_iter_240000.h5'',
      ''18nFnqv9fG5Rh_fx6vUtOoQHOLySt4fEx VGG_VOC0712Plus_SSD_512x512_iter_240000.h5'',
      ''17G1J4zEpFwiOzgBmq886ci4P3YaIz8bY VGG_coco_SSD_300x300.h5'',
      ''1wGc368WyXSHZOv4iow2tri9LnB0vm9X- VGG_coco_SSD_512x512.h5'',
      ''1vtNI6kSnv7fkozl7WxyhGyReB6JvDM41 VGG_VOC0712_SSD_300x300_ft_iter_120000.h'',
      ''14mELuzm0OvXnwjb0mzAiG-Ake9_NP_LQ VGG_VOC0712_SSD_512x512_ft_iter_120000.h5'',
      ''1fyDDUcIOSjeiP08vl1WCndcFdtboFXua VGG_VOC0712Plus_SSD_300x300_ft_iter_160000.h5'',
      ''1a-64b6y6xsQr5puUsHX_wxI1orQDercM VGG_VOC0712Plus_SSD_512x512_ft_iter_160000.h5''])"

text \<open>
  The bindings made by the module's top-level statements, in source order: the imports
  (lines 7--17), \<^verbatim>\<open>logger\<close>, the two constants, and one name per \<^verbatim>\<open>def\<close>.
\<close>

definition web_globals :: namespace where
  "web_globals = map_of
     [(''os'', PyObj), (''requests'', PyObj), (''sys'', PyObj), (''urlparse'', PyObj),
      (''URLError'', PyObj), (''tqdm'', PyObj), (''parse_html'', PyObj), (''logging'', PyObj),
      (''expand_filepath'', PyObj), (''logger'', PyObj),
      (''GOOGLE_DRIVE_PREFIX'', PyStr GOOGLE_DRIVE_PREFIX),
      (''GOOGLE_DRIVEID_FILENAMES'', PyStr GOOGLE_DRIVEID_FILENAMES),
      (''read_http_status_codes'', PyObj), (''http_status_code'', PyObj),
      (''looks_like_url'', PyObj), (''try_parse_url'', PyObj), (''get_url_filemeta'', PyObj),
      (''get_url_title'', PyObj), (''get_url_id'', PyObj), (''get_url_filename'', PyObj),
      (''get_response_confirmation_token'', PyObj), (''save_response_content'', PyObj),
      (''download_file_from_google_drive'', PyObj)]"

subsection \<open>External collaborators\<close>

text \<open>
  What the module imports and calls but does not define. \<open>urlparse\<close> and \<open>geturl\<close>
  are \<^verbatim>\<open>urllib.parse.urlparse\<close> and \<^verbatim>\<open>ParseResult.geturl\<close>; \<open>fetch_title\<close> is
  the body of the \<^verbatim>\<open>try\<close> in \<^verbatim>\<open>get_url_title\<close> (\<^verbatim>\<open>requests.get\<close>, \<^verbatim>\<open>parse_html\<close>,
  \<^verbatim>\<open>findtext('.//title')\<close>), returning the title, \<^verbatim>\<open>None\<close> when the page has none, or
  the exception raised; \<open>session_get\<close> is \<^verbatim>\<open>requests.Session.get\<close>, given the requests
  the session has already sent; \<open>expand_filepath\<close> is \<^verbatim>\<open>nlpia.futil.expand_filepath\<close>
  and \<open>abspath\<close> is \<^verbatim>\<open>os.path.abspath\<close>.
\<close>

record parsed_url =
  scheme :: string
  netloc :: string
  path :: string
  params :: string
  query :: string
  fragment :: string

record response =
  cookies :: "(string \<times> string) list"
  iter_content :: "int \<Rightarrow> string list"

type_synonym request = "string \<times> (string \<times> string) list"

record ext =
  urlparse :: "string \<Rightarrow> py_error + parsed_url"
  geturl :: "parsed_url \<Rightarrow> string"
  fetch_title :: "string \<Rightarrow> py_error + string option"
  session_get :: "request list \<Rightarrow> request \<Rightarrow> py_error + response"
  expand_filepath :: "string \<Rightarrow> string"
  abspath :: "string \<Rightarrow> string"

subsection \<open>\<^verbatim>\<open>try_parse_url\<close> (lines 103--123)\<close>

text \<open>
  Both calls of \<^verbatim>\<open>urlparse\<close> stand in a \<^verbatim>\<open>try\<close> whose only handler is
  \<^verbatim>\<open>except ValueError\<close>: that exception becomes \<^verbatim>\<open>None\<close>, any other propagates.
\<close>

definition try_parse_url :: "ext \<Rightarrow> string \<Rightarrow> py_error + parsed_url option" where
  "try_parse_url x url =
     (if length (py_strip url) < 4 then Inr None
      else case urlparse x url of
          Inl e \<Rightarrow> (if e = ValueError then Inr None else Inl e)
        | Inr parsed_url \<Rightarrow>
            if scheme parsed_url \<noteq> [] then Inr (Some parsed_url)
            else (case urlparse x (''http://'' @ geturl x parsed_url) of
                Inl e \<Rightarrow> (if e = ValueError then Inr None else Inl e)
              | Inr parsed_url' \<Rightarrow>
                  if scheme parsed_url' = [] then Inr None else Inr (Some parsed_url')))"

subsection \<open>\<^verbatim>\<open>get_url_title\<close> (lines 170--189)\<close>

text \<open>
  The first handler names the builtin \<^verbatim>\<open>ConnectionError\<close>; its body calls
  \<^verbatim>\<open>format_exc\<close>, which the module never imports. The second handler's tuple
  \<^verbatim>\<open>(InvalidURL, InvalidSchema, InvalidHeader, MissingSchema)\<close> is evaluated only when the
  first handler did not match; none of the four names is imported either. An exception of
  a library class is \<open>LibraryError\<close> with the class name (the exceptions of
  \<^verbatim>\<open>requests\<close> are of this kind: \<^verbatim>\<open>requests.exceptions.ConnectionError\<close> does not derive
  from the builtin of the same name). A handler that completes falls off the end of the
  function, which returns \<^verbatim>\<open>None\<close>.
\<close>

definition title_handler_names :: "string list" where
  "title_handler_names = [''InvalidURL'', ''InvalidSchema'', ''InvalidHeader'', ''MissingSchema'']"

definition get_url_title :: "namespace \<Rightarrow> ext \<Rightarrow> string \<Rightarrow> py_error + string option" where
  "get_url_title g x url =
     (case try_parse_url x url of
        Inl e \<Rightarrow> Inl e
      | Inr None \<Rightarrow> Inr None
      | Inr (Some parsed_url) \<Rightarrow>
          (case fetch_title x (geturl x parsed_url) of
             Inr title \<Rightarrow> Inr title
           | Inl e \<Rightarrow>
               if e = ConnectionError
               then (case lookup_name g ''format_exc'' of Inl e' \<Rightarrow> Inl e' | Inr _ \<Rightarrow> Inr None)
               else (case lookup_names g title_handler_names of
                   Inl e' \<Rightarrow> Inl e'
                 | Inr _ \<Rightarrow>
                     if e \<in> set (map LibraryError title_handler_names)
                     then (case lookup_name g ''format_exc'' of
                         Inl e' \<Rightarrow> Inl e'
                       | Inr _ \<Rightarrow> Inr None)
                     else Inl e)))"

subsection \<open>\<^verbatim>\<open>get_url_filename\<close> (lines 197--213)\<close>

text \<open>\<^verbatim>\<open>'{}'.format(driveid)\<close>: the argument's \<^verbatim>\<open>str\<close>, which for \<^verbatim>\<open>None\<close> is \<^verbatim>\<open>'None'\<close>.\<close>

definition py_format :: "string option \<Rightarrow> string" where
  "py_format v = (case v of None \<Rightarrow> ''None'' | Some s \<Rightarrow> s)"

text \<open>Line 207: \<^verbatim>\<open>url = url or 'https://drive.google.com/open?id={}'.format(driveid)\<close>.\<close>

definition url_or_drive_url :: "string option \<Rightarrow> string option \<Rightarrow> string" where
  "url_or_drive_url url driveid =
     (case url of
        None \<Rightarrow> ''https://drive.google.com/open?id='' @ py_format driveid
      | Some u \<Rightarrow> if u = [] then ''https://drive.google.com/open?id='' @ py_format driveid else u)"

text \<open>
  Line 210 calls \<^verbatim>\<open>filename.endswith\<close> on whatever \<^verbatim>\<open>get_url_title\<close> returned: on
  \<^verbatim>\<open>None\<close> the attribute lookup raises \<^verbatim>\<open>AttributeError\<close>. Line 211 is
  \<^verbatim>\<open>filename[:-len('Google Drive')].rstrip().rstrip('-:').rstrip()\<close>. A URL outside
  Google Drive reaches the warning of line 213 and the function returns \<^verbatim>\<open>None\<close>.
\<close>

definition get_url_filename ::
  "namespace \<Rightarrow> ext \<Rightarrow> string option \<Rightarrow> string option \<Rightarrow> py_error + string option" where
  "get_url_filename g x url driveid =
     (let url = url_or_drive_url url driveid in
      if prefix ''https://drive.google.com'' url
      then (case get_url_title g x url of
          Inl e \<Rightarrow> Inl e
        | Inr None \<Rightarrow> Inl AttributeError
        | Inr (Some filename) \<Rightarrow>
            if suffix ''Google Drive'' filename
            then Inr (Some (py_rstrip (py_rstrip_chars ''-:'' (py_rstrip
                   (take (length filename - length ''Google Drive'') filename)))))
            else Inr (Some filename))
      else Inr None)"

subsection \<open>\<^verbatim>\<open>get_response_confirmation_token\<close> (lines 216--220)\<close>

fun confirmation_token :: "(string \<times> string) list \<Rightarrow> string option" where
  "confirmation_token [] = None"
| "confirmation_token ((key, val) # items) =
     (if prefix ''download_warning'' key then Some val else confirmation_token items)"

definition get_response_confirmation_token :: "response \<Rightarrow> string option" where
  "get_response_confirmation_token response = confirmation_token (cookies response)"

subsection \<open>\<^verbatim>\<open>save_response_content\<close> (lines 223--235)\<close>

text \<open>
  The file system: the contents of each file, and which paths \<^verbatim>\<open>open(path, "wb")\<close>
  can open. Opening truncates the file; each \<^verbatim>\<open>f.write\<close> appends.
\<close>

record filesystem =
  files :: "string \<Rightarrow> string option"
  can_open :: "string \<Rightarrow> bool"

definition open_wb :: "filesystem \<Rightarrow> string \<Rightarrow> py_error + filesystem" where
  "open_wb fs p = (if can_open fs p then Inr (fs\<lparr>files := (files fs)(p \<mapsto> [])\<rparr>) else Inl OSError)"

definition write_file :: "string \<Rightarrow> string \<Rightarrow> filesystem \<Rightarrow> filesystem" where
  "write_file p chunk fs =
     fs\<lparr>files := (files fs)(p \<mapsto> (case files fs p of None \<Rightarrow> chunk | Some old \<Rightarrow> old @ chunk))\<rparr>"

text \<open>
  \<^verbatim>\<open>
    for chunk in tqdm(...):
        if chunk:
            f.write(chunk)
  \<close>
\<close>

fun write_chunks :: "string \<Rightarrow> string list \<Rightarrow> filesystem \<Rightarrow> filesystem" where
  "write_chunks p [] fs = fs"
| "write_chunks p (chunk # chunks) fs =
     write_chunks p chunks (if chunk \<noteq> [] then write_file p chunk fs else fs)"

text \<open>\<^verbatim>\<open>os.path.sep\<close> and \<^verbatim>\<open>os.path.join\<close> of two components, as \<^verbatim>\<open>posixpath\<close> has them.\<close>

definition path_sep :: char where
  "path_sep = CHR ''/''"

definition path_join :: "string \<Rightarrow> string \<Rightarrow> string" where
  "path_join a b =
     (if prefix [path_sep] b then b
      else if a = [] \<or> suffix [path_sep] a then a @ b
      else a @ [path_sep] @ b)"

text \<open>
  \<^verbatim>\<open>chunksize = chunksize or 32768\<close> is computed and never read again: the loop header
  is \<^verbatim>\<open>response.iter_content(CHUNK_SIZE)\<close>, whose argument is a global name, evaluated
  after the file has been opened. The result is the file system left behind and the value
  returned or the exception raised.
\<close>

definition save_response_content ::
  "namespace \<Rightarrow> ext \<Rightarrow> filesystem \<Rightarrow> response \<Rightarrow> string \<Rightarrow> string \<Rightarrow> int option
     \<Rightarrow> filesystem \<times> (py_error + string)" where
  "save_response_content g x fs response filename destination chunksize =
     (let chunksize = (case chunksize of None \<Rightarrow> 32768 | Some n \<Rightarrow> if n = 0 then 32768 else n);
          full_destination_path =
            (if path_sep \<in> set filename then filename else path_join destination filename);
          full_destination_path = expand_filepath x full_destination_path
      in case open_wb fs full_destination_path of
           Inl e \<Rightarrow> (fs, Inl e)
         | Inr fs1 \<Rightarrow>
             (case lookup_name g ''CHUNK_SIZE'' of
                Inl e \<Rightarrow> (fs1, Inl e)
              | Inr (PyInt n) \<Rightarrow>
                  (write_chunks full_destination_path (iter_content response n) fs1,
                   Inr full_destination_path)
              | Inr _ \<Rightarrow> (fs1, Inl TypeError)))"

subsection \<open>\<^verbatim>\<open>download_file_from_google_drive\<close> (lines 240--268)\<close>

text \<open>
  The model is of the function this \<^verbatim>\<open>def\<close> statement defines. (Line 239, just above
  it, is the bare name \<^verbatim>\<open>live_stream\<close>, bound nowhere: executing the module text
  raises \<^verbatim>\<open>NameError\<close> there, before the \<^verbatim>\<open>def\<close> is reached.)

  Lines 253--262, the confirmation handshake. The first component of the result lists
  the requests the session issued, in order; \<^verbatim>\<open>if token:\<close> is false for \<^verbatim>\<open>None\<close> and
  for the empty string.
\<close>

definition download_url :: string where
  "download_url = ''https://docs.google.com/uc?export=download''"

definition initial_request :: "string \<Rightarrow> request" where
  "initial_request driveid = (download_url, [(''id'', driveid)])"

definition confirmed_request :: "string \<Rightarrow> string \<Rightarrow> request" where
  "confirmed_request driveid token = (download_url, [(''id'', driveid), (''confirm'', token)])"

definition confirmation_handshake :: "ext \<Rightarrow> string \<Rightarrow> request list \<times> (py_error + response)" where
  "confirmation_handshake x driveid =
     (case session_get x [] (initial_request driveid) of
        Inl e \<Rightarrow> ([initial_request driveid], Inl e)
      | Inr response \<Rightarrow>
          (case get_response_confirmation_token response of
             None \<Rightarrow> ([initial_request driveid], Inr response)
           | Some token \<Rightarrow>
               if token \<noteq> []
               then ([initial_request driveid, confirmed_request driveid token],
                     session_get x [initial_request driveid] (confirmed_request driveid token))
               else ([initial_request driveid], Inr response)))"

text \<open>Line 264: \<^verbatim>\<open>filename = filename or get_url_filename(driveid=driveid)\<close>.\<close>

definition filename_or_resolved ::
  "namespace \<Rightarrow> ext \<Rightarrow> string option \<Rightarrow> string \<Rightarrow> py_error + string option" where
  "filename_or_resolved g x filename driveid =
     (case filename of
        None \<Rightarrow> get_url_filename g x None (Some driveid)
      | Some f \<Rightarrow> if f = [] then get_url_filename g x None (Some driveid) else Inr (Some f))"

text \<open>Lines 246--264: everything before the save step.\<close>

definition download_prelude ::
  "namespace \<Rightarrow> ext \<Rightarrow> string \<Rightarrow> string option
     \<Rightarrow> request list \<times> (py_error + response \<times> string option)" where
  "download_prelude g x driveid filename =
     (case extract_driveid driveid of
        Inl e \<Rightarrow> ([], Inl e)
      | Inr driveid \<Rightarrow>
          (case confirmation_handshake x driveid of
             (sent, Inl e) \<Rightarrow> (sent, Inl e)
           | (sent, Inr response) \<Rightarrow>
               (case filename_or_resolved g x filename driveid of
                  Inl e \<Rightarrow> (sent, Inl e)
                | Inr filename \<Rightarrow> (sent, Inr (response, filename)))))"

text \<open>
  Lines 266--268. The keyword argument of the call is the name \<^verbatim>\<open>fileanme\<close>, not the
  local \<^verbatim>\<open>filename\<close>; \<^verbatim>\<open>chunksize\<close> is left at its default; the value returned is
  \<^verbatim>\<open>os.path.abspath(destination)\<close>, and \<^verbatim>\<open>full_destination_path\<close> is not used.
\<close>

definition download_file_from_google_drive ::
  "namespace \<Rightarrow> ext \<Rightarrow> filesystem \<Rightarrow> string \<Rightarrow> string option \<Rightarrow> string
     \<Rightarrow> request list \<times> filesystem \<times> (py_error + string)" where
  "download_file_from_google_drive g x fs driveid filename destination =
     (case download_prelude g x driveid filename of
        (sent, Inl e) \<Rightarrow> (sent, fs, Inl e)
      | (sent, Inr (response, filename)) \<Rightarrow>
          (case lookup_name g ''fileanme'' of
             Inl e \<Rightarrow> (sent, fs, Inl e)
           | Inr (PyStr fileanme) \<Rightarrow>
               (case save_response_content g x fs response fileanme destination (Some 32768) of
                  (fs', Inl e) \<Rightarrow> (sent, fs', Inl e)
                | (fs', Inr full_destination_path) \<Rightarrow> (sent, fs', Inr (abspath x destination)))
           | Inr _ \<Rightarrow> (sent, fs, Inl TypeError)))"

subsection \<open>Predicates for stating the properties\<close>

text \<open>
  The first cookie, in iteration order, whose key starts with \<^verbatim>\<open>download_warning\<close>.
\<close>

definition warning_cookie :: "(string \<times> string) list \<Rightarrow> (string \<times> string) option" where
  "warning_cookie cs = find (\<lambda>c. prefix ''download_warning'' (fst c)) cs"

definition is_separator :: "char \<Rightarrow> bool" where
  "is_separator c \<longleftrightarrow> c \<in> set ''-:''"

definition ends_with :: "(char \<Rightarrow> bool) \<Rightarrow> string \<Rightarrow> bool" where
  "ends_with P s \<longleftrightarrow> s \<noteq> [] \<and> P (last s)"

text \<open>
  The specification's filename for a title that ends with \<^verbatim>\<open>Google Drive\<close>: the title
  with that suffix removed together with any trailing separator characters (\<^verbatim>\<open>-\<close> or
  \<^verbatim>\<open>:\<close>) and whitespace, so that what is left ends in neither.
\<close>

definition all_trailing_stripped :: "string \<Rightarrow> string" where
  "all_trailing_stripped title =
     rstrip_where (\<lambda>c. is_separator c \<or> py_isspace c)
       (take (length title - length ''Google Drive'') title)"

text \<open>
  What one pass removes: \<open>r\<close> is \<open>title\<close> without its suffix \<^verbatim>\<open>Google Drive\<close>,
  without the single run of separator characters that ends what is left, and without the
  whitespace on either side of that run. The part removed is whitespace, then separators,
  then whitespace; \<open>r\<close> does not end in whitespace; and \<open>r\<close> can still end in a separator,
  but only when whitespace stands between it and the separators removed.
\<close>

definition one_run_stripped :: "string \<Rightarrow> string \<Rightarrow> bool" where
  "one_run_stripped title r \<longleftrightarrow>
     suffix ''Google Drive'' title \<and> prefix r title \<and>
     length r + length ''Google Drive'' \<le> length title \<and>
     (let removed = drop (length r) (take (length title - length ''Google Drive'') title) in
        dropWhile py_isspace (dropWhile is_separator (dropWhile py_isspace removed)) = [] \<and>
        \<not> ends_with py_isspace r \<and>
        (ends_with is_separator r \<longrightarrow>
           removed \<noteq> [] \<and> py_isspace (hd removed) \<and> list_ex is_separator removed))"

subsection \<open>Reference instances of the collaborators\<close>

text \<open>
  Concrete collaborators for evaluating the module at explicit inputs. \<open>urlparse_ref\<close>
  and \<open>geturl_ref\<close> follow \<^verbatim>\<open>urllib.parse\<close>: a scheme is a letter followed by letters,
  digits, \<^verbatim>\<open>+\<close>, \<^verbatim>\<open>-\<close> or \<^verbatim>\<open>.\<close> up to the first colon; a network location follows
  \<^verbatim>\<open>//\<close> and ends at \<^verbatim>\<open>/\<close>, \<^verbatim>\<open>?\<close> or \<^verbatim>\<open>#\<close>, and \<^verbatim>\<open>ValueError\<close> (Invalid IPv6 URL) is
  raised when it holds one square bracket without the other; then the fragment and the
  query are cut off. Path parameters are not split off. The general theorems below are
  about an arbitrary \<open>ext\<close>; these instances only serve the closed examples.
\<close>

definition scheme_chars :: string where
  "scheme_chars = ''abcdefghijklmnopqrstuvwxyzABCDEFGHIJKLMNOPQRSTUVWXYZ0123456789+-.''"

definition ascii_lower :: "char \<Rightarrow> char" where
  "ascii_lower c =
     (case map_of (zip ''ABCDEFGHIJKLMNOPQRSTUVWXYZ'' ''abcdefghijklmnopqrstuvwxyz'') c of
        None \<Rightarrow> c
      | Some l \<Rightarrow> l)"

definition urlparse_ref :: "string \<Rightarrow> py_error + parsed_url" where
  "urlparse_ref url =
     (let head = takeWhile (\<lambda>c. c \<noteq> CHR '':'') url;
          has_scheme = (head \<noteq> [] \<and> length head < length url \<and>
                        hd head \<in> set (take 52 scheme_chars) \<and>
                        list_all (\<lambda>c. c \<in> set scheme_chars) head);
          sch = (if has_scheme then map ascii_lower head else []);
          rest = (if has_scheme then drop (length head + 1) url else url);
          has_netloc = prefix ''//'' rest;
          loc = (if has_netloc then takeWhile (\<lambda>c. c \<notin> set ''/?#'') (drop 2 rest) else []);
          rest = (if has_netloc then dropWhile (\<lambda>c. c \<notin> set ''/?#'') (drop 2 rest) else rest);
          frag = drop 1 (dropWhile (\<lambda>c. c \<noteq> CHR ''#'') rest);
          rest = takeWhile (\<lambda>c. c \<noteq> CHR ''#'') rest;
          qry = drop 1 (dropWhile (\<lambda>c. c \<noteq> CHR ''?'') rest);
          pth = takeWhile (\<lambda>c. c \<noteq> CHR ''?'') rest
      in if (CHR ''['' \<in> set loc) = (CHR '']'' \<in> set loc)
         then Inr \<lparr>scheme = sch, netloc = loc, path = pth, params = [], query = qry,
                   fragment = frag\<rparr>
         else Inl ValueError)"

definition uses_netloc :: "string list" where
  "uses_netloc = [''ftp'', ''http'', ''gopher'', ''nntp'', ''telnet'', ''imap'', ''wais'',
     ''file'', ''mms'', ''https'', ''shttp'', ''snews'', ''prospero'', ''rtsp'', ''rtspu'',
     ''rsync'', ''svn'', ''svn+ssh'', ''sftp'', ''nfs'', ''git'', ''git+ssh'', ''ws'', ''wss'']"

definition geturl_ref :: "parsed_url \<Rightarrow> string" where
  "geturl_ref p =
     (let url = (if params p = [] then path p else path p @ '';'' @ params p);
          url = (if (if netloc p = [] then scheme p \<in> set uses_netloc \<and> take 2 url \<noteq> ''//''
                     else True)
                 then ''//'' @ netloc p @ (if url = [] \<or> take 1 url = ''/'' then url else ''/'' @ url)
                 else url);
          url = (if scheme p = [] then url else scheme p @ '':'' @ url);
          url = (if query p = [] then url else url @ ''?'' @ query p);
          url = (if fragment p = [] then url else url @ ''#'' @ fragment p)
      in url)"

text \<open>A home directory and working directory of \<^verbatim>\<open>/home/user\<close>.\<close>

definition expand_ref :: "string \<Rightarrow> string" where
  "expand_ref p = (if p = ''~'' \<or> prefix ''~/'' p then ''/home/user'' @ tl p else p)"

definition abspath_ref :: "string \<Rightarrow> string" where
  "abspath_ref p =
     (if prefix ''/'' p then p else if p = ''.'' then ''/home/user'' else ''/home/user/'' @ p)"

text \<open>
  A server that answers every request with the given cookies and body chunks, and a
  Drive page with the given title (or none).
\<close>

definition stub_ext :: "(string \<times> string) list \<Rightarrow> string list \<Rightarrow> string option \<Rightarrow> ext" where
  "stub_ext cs chunks title =
     \<lparr>urlparse = urlparse_ref, geturl = geturl_ref,
      fetch_title = (\<lambda>u. Inr title),
      session_get = (\<lambda>sent req. Inr \<lparr>cookies = cs, iter_content = (\<lambda>n. chunks)\<rparr>),
      expand_filepath = expand_ref, abspath = abspath_ref\<rparr>"

definition empty_fs :: filesystem where
  "empty_fs = \<lparr>files = (\<lambda>p. None), can_open = (\<lambda>p. True)\<rparr>"

section \<open>Properties\<close>

subsection \<open>Splitting at a separator that cannot overlap itself\<close>

lemma sublist_skip_foreign:
  "sep \<noteq> [] \<Longrightarrow> hd sep \<notin> set xs \<Longrightarrow> sublist sep (xs @ rest) = sublist sep rest"
proof (induction xs)
  case Nil
  then show ?case by simp
next
  case (Cons x xs)
  then obtain h t where sep: "sep = h # t" by (cases sep) auto
  with Cons show ?case by (auto simp: sublist_Cons_right)
qed

lemma split_from_not_Nil: "split_from sep acc s \<noteq> []"
  by (induction sep acc s rule: split_from.induct) auto

lemma split_from_absent:
  "\<not> sublist sep s \<Longrightarrow> split_from sep acc s = [rev acc @ s]"
proof (induction sep acc s rule: split_from.induct)
  case (1 sep acc)
  then show ?case by simp
next
  case (2 sep acc c cs)
  from "2.prems" have np: "\<not> prefix sep (c # cs)" and ns: "\<not> sublist sep cs"
    by (auto simp: sublist_Cons_right)
  with "2.IH"(2) show ?case by simp
qed

lemma split_from_last:
  assumes "sep \<noteq> []" "hd sep \<notin> set (tl sep)"
  shows "sublist sep s \<Longrightarrow> after_last_occurrence sep s (last (split_from sep acc s))"
  using assms
proof (induction sep acc s rule: split_from.induct)
  case (1 sep acc)
  then show ?case by (cases sep) auto
next
  case (2 sep acc c cs)
  show ?case
  proof (cases "prefix sep (c # cs)")
    case True
    then obtain rest where rest: "c # cs = sep @ rest" by (auto simp: prefix_def)
    then have dr: "drop (length sep) (c # cs) = rest" by (metis append_eq_conv_conj)
    have lst: "last (split_from sep acc (c # cs)) = last (split_from sep [] rest)"
      using True "2.prems" dr split_from_not_Nil by simp
    show ?thesis
    proof (cases "sublist sep rest")
      case s: True
      from "2.IH"(1) True "2.prems" dr s
      have "after_last_occurrence sep rest (last (split_from sep [] rest))" by simp
      then have "suffix (sep @ last (split_from sep [] rest)) (sep @ rest)"
        and "\<not> sublist sep (tl (sep @ last (split_from sep [] rest)))"
        by (auto simp: after_last_occurrence_def intro: suffix_appendI)
      then show ?thesis unfolding after_last_occurrence_def lst rest [symmetric] by simp
    next
      case s: False
      then have "split_from sep [] rest = [rest]" using split_from_absent[of sep rest "[]"] by simp
      moreover have "\<not> sublist sep (tl (sep @ rest))"
        using sublist_skip_foreign[of sep "tl sep" rest] "2.prems" s by (cases sep) auto
      ultimately show ?thesis unfolding after_last_occurrence_def lst by (simp add: rest)
    qed
  next
    case False
    with "2.prems" have s: "sublist sep cs" by (cases sep) (auto simp: sublist_Cons_right)
    from "2.IH"(2) False "2.prems" s
    have "after_last_occurrence sep cs (last (split_from sep (c # acc) cs))" by simp
    then show ?thesis using False
      by (auto simp: after_last_occurrence_def suffix_Cons)
  qed
qed

lemma split_last_present:
  assumes "sep \<noteq> []" "hd sep \<notin> set (tl sep)" "sublist sep s"
  shows "\<exists>t. split_last sep s = Inr t \<and> after_last_occurrence sep s t"
proof -
  obtain p ps where "split_from sep [] s = p # ps"
    using split_from_not_Nil [of sep "[]" s] by (cases "split_from sep [] s") auto
  then have "split_last sep s = Inr (last (split_from sep [] s))"
    using assms(1) by (simp add: split_last_def py_split_def py_last_def)
  with split_from_last [OF assms(1,2,3), of "[]"] show ?thesis by blast
qed

text \<open>The substring after the last occurrence is unique, so the predicate names one string.\<close>

lemma after_last_occurrence_unique:
  assumes "after_last_occurrence sep s t" "after_last_occurrence sep s t'"
  shows "t = t'"
proof -
  have later: "a = b"
    if n: "\<not> sublist sep (tl (sep @ b))" and sf: "suffix (sep @ a) (sep @ b)" for a b
  proof (rule ccontr)
    assume ne: "a \<noteq> b"
    from sf obtain zs where zs: "sep @ b = zs @ sep @ a" by (auto simp: suffix_def)
    with ne have "zs \<noteq> []" by auto
    then obtain z zs' where "zs = z # zs'" by (cases zs) auto
    with zs have "tl (sep @ b) = zs' @ sep @ a" by simp
    then have "sublist sep (tl (sep @ b))" by (auto simp: sublist_def)
    with n show False by simp
  qed
  from assms have s1: "suffix (sep @ t) s" and s2: "suffix (sep @ t') s"
    and n1: "\<not> sublist sep (tl (sep @ t))" and n2: "\<not> sublist sep (tl (sep @ t'))"
    by (auto simp: after_last_occurrence_def)
  from s1 s2 have "suffix (sep @ t) (sep @ t') \<or> suffix (sep @ t') (sep @ t)"
    by (rule suffix_same_cases)
  then show ?thesis using later [OF n2] later [OF n1] by auto
qed

subsection \<open>Drive-ID extraction\<close>

text \<open>
  Claim C2, as the code has it. Extraction never raises. If \<^verbatim>\<open>&id=\<close> occurs in the input,
  the candidate \<open>d1\<close> is the substring after its last occurrence, otherwise the input
  itself; the extracted ID is then the substring of \<open>d1\<close> after the last \<^verbatim>\<open>?id=\<close> when
  \<^verbatim>\<open>?id=\<close> occurs in \<open>d1\<close>, and \<open>d1\<close> otherwise. The \<^verbatim>\<open>?id=\<close> rule is applied to the
  result of the \<^verbatim>\<open>&id=\<close> rule, not only when \<^verbatim>\<open>&id=\<close> is absent.
\<close>

theorem extract_driveid_sequential:
  "\<exists>d1. (if sublist ''&id='' s then after_last_occurrence ''&id='' s d1 else d1 = s) \<and>
     (\<exists>d2. extract_driveid s = Inr d2 \<and>
        (if sublist ''?id='' d1 then after_last_occurrence ''?id='' d1 d2 else d2 = d1))"
proof -
  obtain d1 where d1: "(if sublist ''&id='' s then split_last ''&id='' s else Inr s) = Inr d1"
    and a1: "if sublist ''&id='' s then after_last_occurrence ''&id='' s d1 else d1 = s"
    using split_last_present [of "''&id=''" s] by (cases "sublist ''&id='' s") auto
  obtain d2 where d2: "(if sublist ''?id='' d1 then split_last ''?id='' d1 else Inr d1) = Inr d2"
    and a2: "if sublist ''?id='' d1 then after_last_occurrence ''?id='' d1 d2 else d2 = d1"
    using split_last_present [of "''?id=''" d1] by (cases "sublist ''?id='' d1") auto
  have "extract_driveid s = Inr d2"
    unfolding extract_driveid_def d1 using d2 by simp
  with a1 a2 show ?thesis by blast
qed

text \<open>
  The claim as stated fails where \<^verbatim>\<open>?id=\<close> follows the last \<^verbatim>\<open>&id=\<close>: in
  \<^verbatim>\<open>x&id=y?id=z\<close> the substring after the last \<^verbatim>\<open>&id=\<close> is \<^verbatim>\<open>y?id=z\<close>, and the
  extracted ID is \<^verbatim>\<open>z\<close>.
\<close>

theorem extract_driveid_amp_then_question_counterexample:
  "sublist ''&id='' ''x&id=y?id=z'' \<and>
   after_last_occurrence ''&id='' ''x&id=y?id=z'' ''y?id=z'' \<and>
   extract_driveid ''x&id=y?id=z'' = Inr ''z'' \<and>
   \<not> after_last_occurrence ''&id='' ''x&id=y?id=z'' ''z''"
  by (simp add: after_last_occurrence_def extract_driveid_def split_last_def py_split_def
      py_last_def suffix_to_prefix sublist_code(3))

subsection \<open>The confirmation handshake\<close>

lemma confirmation_token_warning_cookie:
  "confirmation_token cs = map_option snd (warning_cookie cs)"
  unfolding warning_cookie_def by (induction cs rule: confirmation_token.induct) simp_all

lemma warning_cookie_None:
  "warning_cookie cs = None \<longleftrightarrow> \<not> list_ex (\<lambda>c. prefix ''download_warning'' (fst c)) cs"
  by (auto simp: warning_cookie_def find_None_iff list_ex_iff)

text \<open>
  Claim C1, as the code has it. After an initial request that returned a response, the
  token is the value of the first cookie whose key starts with \<^verbatim>\<open>download_warning\<close>. A
  second request is issued exactly when that cookie exists and its value is not empty; its
  parameters are then the same drive id and \<^verbatim>\<open>confirm=\<close> followed by the token, and its outcome is the
  outcome of the handshake. Otherwise (no such cookie, or an empty value) the initial
  request is the only one and the initial response is used.
\<close>

theorem handshake_second_request:
  assumes "session_get x [] (initial_request driveid) = Inr response"
  shows "(case warning_cookie (cookies response) of
            None \<Rightarrow> confirmation_handshake x driveid = ([initial_request driveid], Inr response)
          | Some (key, token) \<Rightarrow>
              if token = []
              then confirmation_handshake x driveid = ([initial_request driveid], Inr response)
              else confirmation_handshake x driveid =
                ([initial_request driveid, confirmed_request driveid token],
                 session_get x [initial_request driveid] (confirmed_request driveid token))) \<and>
         (length (fst (confirmation_handshake x driveid)) = 2 \<longleftrightarrow>
            (\<exists>key token. warning_cookie (cookies response) = Some (key, token) \<and> token \<noteq> [])) \<and>
         (\<not> list_ex (\<lambda>c. prefix ''download_warning'' (fst c)) (cookies response) \<longrightarrow>
            confirmation_handshake x driveid = ([initial_request driveid], Inr response))"
proof -
  have main: "confirmation_handshake x driveid =
     (case warning_cookie (cookies response) of
        None \<Rightarrow> ([initial_request driveid], Inr response)
      | Some (key, token) \<Rightarrow>
          if token = [] then ([initial_request driveid], Inr response)
          else ([initial_request driveid, confirmed_request driveid token],
                session_get x [initial_request driveid] (confirmed_request driveid token)))"
    using assms
    by (simp add: confirmation_handshake_def get_response_confirmation_token_def
        confirmation_token_warning_cookie split: option.splits prod.splits)
  have first: "case warning_cookie (cookies response) of
            None \<Rightarrow> confirmation_handshake x driveid = ([initial_request driveid], Inr response)
          | Some (key, token) \<Rightarrow>
              if token = []
              then confirmation_handshake x driveid = ([initial_request driveid], Inr response)
              else confirmation_handshake x driveid =
                ([initial_request driveid, confirmed_request driveid token],
                 session_get x [initial_request driveid] (confirmed_request driveid token))"
    unfolding main by (simp split: option.splits prod.splits)
  have second: "length (fst (confirmation_handshake x driveid)) = 2 \<longleftrightarrow>
         (\<exists>key token. warning_cookie (cookies response) = Some (key, token) \<and> token \<noteq> [])"
    unfolding main by (auto split: option.splits prod.splits)
  have third: "confirmation_handshake x driveid = ([initial_request driveid], Inr response)"
    if "\<not> list_ex (\<lambda>c. prefix ''download_warning'' (fst c)) (cookies response)"
    using that unfolding main by (simp add: warning_cookie_None [symmetric])
  from first second third show ?thesis by blast
qed

text \<open>
  The scenario of the specification: the cookie \<^verbatim>\<open>download_warning_13Ab=TOKEN123\<close>
  (after an unrelated cookie) triggers a second request with \<^verbatim>\<open>confirm=TOKEN123\<close>.
\<close>

theorem handshake_second_request_witness:
  "confirmation_handshake
     (stub_ext [(''NID'', ''7''), (''download_warning_13Ab'', ''TOKEN123'')] [] None) ''X'' =
     ([initial_request ''X'', confirmed_request ''X'' ''TOKEN123''],
      Inr \<lparr>cookies = [(''NID'', ''7''), (''download_warning_13Ab'', ''TOKEN123'')],
           iter_content = (\<lambda>n. [])\<rparr>)"
  using handshake_second_request
    [of "stub_ext [(''NID'', ''7''), (''download_warning_13Ab'', ''TOKEN123'')] [] None" "''X''"
     "\<lparr>cookies = [(''NID'', ''7''), (''download_warning_13Ab'', ''TOKEN123'')],
       iter_content = (\<lambda>n. [])\<rparr>", THEN conjunct1]
  by (simp add: stub_ext_def warning_cookie_def)

text \<open>
  The claim as stated fails for a warning cookie with an empty value: a cookie whose key
  starts with \<^verbatim>\<open>download_warning\<close> exists, and only the initial request is issued.
\<close>

theorem handshake_empty_token_counterexample:
  "prefix ''download_warning'' ''download_warning_13Ab'' \<and>
   fst (confirmation_handshake (stub_ext [(''download_warning_13Ab'', [])] [] None) ''X'') =
     [initial_request ''X'']"
  by (simp add: confirmation_handshake_def get_response_confirmation_token_def stub_ext_def)

subsection \<open>URL normalization\<close>

lemma urlparse_ref_raises_only_ValueError: "urlparse_ref s = Inl e \<Longrightarrow> e = ValueError"
  by (simp add: urlparse_ref_def Let_def split: if_splits)

lemma urlparse_ref_http: "urlparse_ref (''http://'' @ s) = Inr q \<Longrightarrow> scheme q = ''http''"
  by (auto simp: urlparse_ref_def Let_def scheme_chars_def ascii_lower_def split: if_splits)

text \<open>
  Claim C7. Provided \<^verbatim>\<open>urlparse\<close> raises nothing but \<^verbatim>\<open>ValueError\<close> (its contract on
  strings), \<^verbatim>\<open>try_parse_url\<close> never raises: it returns a parsed URL or \<^verbatim>\<open>None\<close>; and
  for every string whose trimmed length is below 4 it returns \<^verbatim>\<open>None\<close>.
\<close>

theorem try_parse_url_never_raises:
  assumes "\<forall>s e. urlparse x s = Inl e \<longrightarrow> e = ValueError"
  shows "(\<exists>r. try_parse_url x url = Inr r) \<and>
         (length (py_strip url) < 4 \<longrightarrow> try_parse_url x url = Inr None)"
  using assms
  by (auto simp: try_parse_url_def split: sum.splits)

theorem try_parse_url_never_raises_witness:
  "try_parse_url (stub_ext [] [] None) '' ab  '' = Inr None \<and>
   (\<exists>r. try_parse_url (stub_ext [] [] None) ''[abcd'' = Inr r)"
  using try_parse_url_never_raises [of "stub_ext [] [] None" "'' ab  ''"]
    try_parse_url_never_raises [of "stub_ext [] [] None" "''[abcd''"]
    urlparse_ref_raises_only_ValueError
  by (simp add: stub_ext_def py_strip_def py_rstrip_def rstrip_where_def py_isspace_def)

text \<open>
  Claim C8, as the code has it. For a string of trimmed length at least 4 that
  \<^verbatim>\<open>urlparse\<close> parses: if the parse has a scheme, it is returned unchanged; if it has
  none, \<^verbatim>\<open>'http://'\<close> is prepended to the parse's \<^verbatim>\<open>geturl()\<close> and the result of parsing
  that is returned, with scheme \<^verbatim>\<open>http\<close> (by the contract of \<^verbatim>\<open>urlparse\<close> on a string
  that starts with \<^verbatim>\<open>http://\<close>), unless this second parse raises: a \<^verbatim>\<open>ValueError\<close> gives
  \<^verbatim>\<open>None\<close>.
\<close>

theorem try_parse_url_scheme:
  assumes "4 \<le> length (py_strip url)" and "urlparse x url = Inr p"
    and "\<forall>s q. urlparse x (''http://'' @ s) = Inr q \<longrightarrow> scheme q = ''http''"
  shows "(scheme p \<noteq> [] \<longrightarrow> try_parse_url x url = Inr (Some p)) \<and>
         (scheme p = [] \<longrightarrow>
            (case urlparse x (''http://'' @ geturl x p) of
               Inr q \<Rightarrow> try_parse_url x url = Inr (Some q) \<and> scheme q = ''http''
             | Inl e \<Rightarrow> try_parse_url x url = (if e = ValueError then Inr None else Inl e)))"
  using assms
  by (auto simp: try_parse_url_def split: sum.splits)

text \<open>
  Both branches at concrete inputs: \<^verbatim>\<open>totalgood.org\<close> has no scheme and comes back as
  \<^verbatim>\<open>http://totalgood.org\<close>; a Drive URL keeps its scheme \<^verbatim>\<open>https\<close>.
\<close>

theorem try_parse_url_scheme_witness:
  "try_parse_url (stub_ext [] [] None) ''totalgood.org'' =
     Inr (Some \<lparr>scheme = ''http'', netloc = ''totalgood.org'', path = [], params = [],
                 query = [], fragment = []\<rparr>) \<and>
   try_parse_url (stub_ext [] [] None) ''https://drive.google.com/open?id=X'' =
     Inr (Some \<lparr>scheme = ''https'', netloc = ''drive.google.com'', path = ''/open'', params = [],
                 query = ''id=X'', fragment = []\<rparr>)"
proof -
  let ?x = "stub_ext [] [] None"
  have c: "\<forall>s q. urlparse ?x (''http://'' @ s) = Inr q \<longrightarrow> scheme q = ''http''"
    using urlparse_ref_http by (simp add: stub_ext_def)
  have l1: "4 \<le> length (py_strip ''totalgood.org'')"
    by (simp add: py_strip_def py_rstrip_def rstrip_where_def py_isspace_def)
  have l2: "4 \<le> length (py_strip ''https://drive.google.com/open?id=X'')"
    by (simp add: py_strip_def py_rstrip_def rstrip_where_def py_isspace_def)
  have p1: "urlparse ?x ''totalgood.org'' =
      Inr \<lparr>scheme = [], netloc = [], path = ''totalgood.org'', params = [], query = [],
           fragment = []\<rparr>"
    by (simp add: stub_ext_def urlparse_ref_def Let_def scheme_chars_def)
  have p2: "urlparse ?x ''https://drive.google.com/open?id=X'' =
      Inr \<lparr>scheme = ''https'', netloc = ''drive.google.com'', path = ''/open'', params = [],
           query = ''id=X'', fragment = []\<rparr>"
    by (simp add: stub_ext_def urlparse_ref_def Let_def scheme_chars_def ascii_lower_def)
  have g: "geturl ?x \<lparr>scheme = [], netloc = [], path = ''totalgood.org'', params = [],
      query = [], fragment = []\<rparr> = ''totalgood.org''"
    by (simp add: stub_ext_def geturl_ref_def uses_netloc_def)
  have p3: "urlparse ?x ''http://totalgood.org'' =
      Inr \<lparr>scheme = ''http'', netloc = ''totalgood.org'', path = [], params = [], query = [],
           fragment = []\<rparr>"
    by (simp add: stub_ext_def urlparse_ref_def Let_def scheme_chars_def ascii_lower_def)
  from try_parse_url_scheme [OF l1 p1 c] g p3 try_parse_url_scheme [OF l2 p2 c]
  show ?thesis by simp
qed

text \<open>
  The claim as stated fails in both halves. \<^verbatim>\<open>[abcd\<close> parses without a scheme, and
  normalization returns \<^verbatim>\<open>None\<close> (parsing \<^verbatim>\<open>http://[abcd\<close> raises \<^verbatim>\<open>ValueError\<close>), not
  a URL with scheme \<^verbatim>\<open>http\<close>. \<^verbatim>\<open>a:b\<close> parses with the scheme \<^verbatim>\<open>a\<close>, and normalization
  returns \<^verbatim>\<open>None\<close> (too short), not the parsed form.
\<close>

theorem try_parse_url_scheme_counterexample:
  "urlparse_ref ''[abcd'' = Inr \<lparr>scheme = [], netloc = [], path = ''[abcd'', params = [],
                 query = [], fragment = []\<rparr> \<and>
   try_parse_url (stub_ext [] [] None) ''[abcd'' = Inr None \<and>
   urlparse_ref ''a:b'' = Inr \<lparr>scheme = ''a'', netloc = [], path = ''b'', params = [],
                 query = [], fragment = []\<rparr> \<and>
   try_parse_url (stub_ext [] [] None) ''a:b'' = Inr None"
  by (simp add: try_parse_url_def stub_ext_def urlparse_ref_def geturl_ref_def uses_netloc_def
      Let_def scheme_chars_def ascii_lower_def py_strip_def py_rstrip_def rstrip_where_def
      py_isspace_def)

subsection \<open>Filename resolution\<close>

lemma rstrip_where_decomp:
  obtains tail where "s = rstrip_where P s @ tail" "list_all P tail"
    "\<not> ends_with P (rstrip_where P s)"
proof
  show "s = rstrip_where P s @ rev (takeWhile P (rev s))"
    unfolding rstrip_where_def
    by (metis rev_append rev_rev_ident takeWhile_dropWhile_id)
  show "list_all P (rev (takeWhile P (rev s)))"
    by (auto simp: list_all_iff dest: set_takeWhileD)
  show "\<not> ends_with P (rstrip_where P s)"
    using hd_dropWhile [of P "rev s"]
    unfolding ends_with_def rstrip_where_def
    by (cases "dropWhile P (rev s) = []") (simp_all add: last_rev)
qed

lemma separator_not_space: "is_separator c \<Longrightarrow> \<not> py_isspace c"
  by (auto simp: is_separator_def py_isspace_def)

lemma dropWhile_all: "list_all P xs \<Longrightarrow> dropWhile P (xs @ ys) = dropWhile P ys"
  by (induction xs) auto

lemma strip_three:
  assumes r: "r = py_rstrip (py_rstrip_chars ''-:'' (py_rstrip body))"
  shows "prefix r body"
    and "dropWhile py_isspace
           (dropWhile is_separator (dropWhile py_isspace (drop (length r) body))) = []"
    and "\<not> ends_with py_isspace r"
    and "ends_with is_separator r \<Longrightarrow>
           drop (length r) body \<noteq> [] \<and> py_isspace (hd (drop (length r) body)) \<and>
           list_ex is_separator (drop (length r) body)"
    and "list_all (\<lambda>c. is_separator c \<or> py_isspace c) (drop (length r) body)"
proof -
  define x1 where "x1 = rstrip_where py_isspace body"
  define x2 where "x2 = rstrip_where is_separator x1"
  have sepfun: "(\<lambda>c. c \<in> set ''-:'') = is_separator"
    by (rule ext) (simp add: is_separator_def)
  have r': "r = rstrip_where py_isspace x2"
    unfolding r x1_def x2_def py_rstrip_def py_rstrip_chars_def sepfun ..
  obtain w2 where w2: "body = x1 @ w2" "list_all py_isspace w2" "\<not> ends_with py_isspace x1"
    unfolding x1_def by (rule rstrip_where_decomp)
  obtain s where s: "x1 = x2 @ s" "list_all is_separator s" "\<not> ends_with is_separator x2"
    unfolding x2_def by (rule rstrip_where_decomp)
  obtain w1 where w1: "x2 = r @ w1" "list_all py_isspace w1" "\<not> ends_with py_isspace r"
    unfolding r' by (rule rstrip_where_decomp)
  have body: "body = r @ w1 @ s @ w2" using w2(1) s(1) w1(1) by simp
  then have removed: "drop (length r) body = w1 @ s @ w2" by simp
  show "prefix r body" using body by simp
  show "\<not> ends_with py_isspace r" by (rule w1(3))
  show "list_all (\<lambda>c. is_separator c \<or> py_isspace c) (drop (length r) body)"
    unfolding removed using w1(2) s(2) w2(2) by (auto simp: list_all_iff)
  have ws_all: "dropWhile py_isspace w2 = []" using w2(2) by (simp add: list_all_iff)
  have sep_w2: "dropWhile is_separator w2 = w2"
    using w2(2) separator_not_space by (cases w2) auto
  show "dropWhile py_isspace
          (dropWhile is_separator (dropWhile py_isspace (drop (length r) body))) = []"
  proof (cases s)
    case Nil
    then show ?thesis unfolding removed using w1(2) by (simp add: dropWhile_all ws_all)
  next
    case (Cons c s')
    with s(2) have "\<not> py_isspace c" by (simp add: separator_not_space)
    with Cons have "dropWhile py_isspace (w1 @ s @ w2) = s @ w2"
      using w1(2) by (simp add: dropWhile_all)
    then show ?thesis unfolding removed using s(2) by (simp add: dropWhile_all sep_w2 ws_all)
  qed
  show "drop (length r) body \<noteq> [] \<and> py_isspace (hd (drop (length r) body)) \<and>
           list_ex is_separator (drop (length r) body)" if e: "ends_with is_separator r"
  proof -
    have w1ne: "w1 \<noteq> []"
    proof
      assume "w1 = []"
      with w1(1) e s(3) show False by simp
    qed
    have sne: "s \<noteq> []"
    proof
      assume "s = []"
      with s(1) w1(1) have "x1 = r @ w1" by simp
      with w1ne w1(2) have "ends_with py_isspace x1"
        by (simp add: ends_with_def list_all_iff)
      with w2(3) show False by simp
    qed
    from w1ne w1(2) have "py_isspace (hd (w1 @ s @ w2))" by (cases w1) auto
    moreover from sne s(2) have "list_ex is_separator (w1 @ s @ w2)"
      by (cases s) (auto simp: list_ex_iff)
    ultimately show ?thesis unfolding removed using w1ne by simp
  qed
qed

lemma rstrip_where_fixed:
  assumes "list_all P t" and "\<not> ends_with P r"
  shows "rstrip_where P (r @ t) = r"
proof -
  from assms(1) have "dropWhile P (rev t @ rev r) = dropWhile P (rev r)"
    by (simp add: dropWhile_all list_all_iff)
  moreover from assms(2) have "dropWhile P (rev r) = rev r"
    by (cases "rev r") (auto simp: ends_with_def last_rev)
  ultimately show ?thesis by (simp add: rstrip_where_def)
qed

lemma rstrip_where_not_ends_with: "\<not> ends_with P (rstrip_where P s)"
  by (rule rstrip_where_decomp [of s P])

text \<open>
  Claim C5, as the code has it. When the URL is a Drive URL and the title retrieved for it
  ends with \<^verbatim>\<open>Google Drive\<close>, \<^verbatim>\<open>get_url_filename\<close> returns the title with that suffix
  removed together with one trailing run of separator characters (\<^verbatim>\<open>-\<close> or \<^verbatim>\<open>:\<close>) and
  the whitespace on either side of that run. The result is the title stripped of all its
  trailing separators and whitespace exactly when it does not end in a separator.
\<close>

theorem get_url_filename_strips_drive_suffix:
  assumes "prefix ''https://drive.google.com'' (url_or_drive_url url driveid)"
    and "get_url_title g x (url_or_drive_url url driveid) = Inr (Some title)"
    and "suffix ''Google Drive'' title"
  shows "\<exists>r. get_url_filename g x url driveid = Inr (Some r) \<and> one_run_stripped title r \<and>
           (r = all_trailing_stripped title \<longleftrightarrow> \<not> ends_with is_separator r)"
proof -
  define body where "body = take (length title - length ''Google Drive'') title"
  define r where "r = py_rstrip (py_rstrip_chars ''-:'' (py_rstrip body))"
  from assms(3) have title: "title = body @ ''Google Drive''"
    unfolding body_def by (auto simp: suffix_def)
  have res: "get_url_filename g x url driveid = Inr (Some r)"
    using assms by (simp add: get_url_filename_def Let_def r_def body_def)
  note st = strip_three [OF r_def]
  from st(1) have len: "length r \<le> length body" by (rule prefix_length_le)
  from st(1) have pre: "prefix r title" unfolding title by (rule prefix_prefix)
  have bd: "take (length title - length ''Google Drive'') title = body" by (simp add: body_def)
  have one: "one_run_stripped title r"
    unfolding one_run_stripped_def Let_def bd
    using assms(3) pre len st(2,3,4) by (simp add: title)
  have all: "r = all_trailing_stripped title \<longleftrightarrow> \<not> ends_with is_separator r"
  proof
    assume "r = all_trailing_stripped title"
    then have "\<not> ends_with (\<lambda>c. is_separator c \<or> py_isspace c) r"
      unfolding all_trailing_stripped_def by (simp add: rstrip_where_not_ends_with)
    then show "\<not> ends_with is_separator r" by (auto simp: ends_with_def)
  next
    assume "\<not> ends_with is_separator r"
    with st(3) have ne: "\<not> ends_with (\<lambda>c. is_separator c \<or> py_isspace c) r"
      by (auto simp: ends_with_def)
    from st(1) have "body = r @ drop (length r) body"
      by (auto simp: prefix_def)
    with rstrip_where_fixed [OF st(5) ne]
    have "rstrip_where (\<lambda>c. is_separator c \<or> py_isspace c) body = r" by simp
    then show "r = all_trailing_stripped title"
      unfolding all_trailing_stripped_def bd by simp
  qed
  from res one all show ?thesis by blast
qed

text \<open>
  The title \<^verbatim>\<open>My File - Google Drive\<close> resolves to the filename \<^verbatim>\<open>My File\<close>, which is
  also the title without all its trailing separators and whitespace.
\<close>

theorem get_url_filename_strips_drive_suffix_witness:
  "get_url_filename web_globals (stub_ext [] [] (Some ''My File - Google Drive'')) None
       (Some ''abc'')
     = Inr (Some ''My File'') \<and>
   one_run_stripped ''My File - Google Drive'' ''My File'' \<and>
   all_trailing_stripped ''My File - Google Drive'' = ''My File''"
proof -
  let ?x = "stub_ext [] [] (Some ''My File - Google Drive'')"
  have u: "url_or_drive_url None (Some ''abc'') = ''https://drive.google.com/open?id=abc''"
    by (simp add: url_or_drive_url_def py_format_def)
  have a1: "prefix ''https://drive.google.com'' (url_or_drive_url None (Some ''abc''))"
    unfolding u by simp
  have a2: "get_url_title web_globals ?x (url_or_drive_url None (Some ''abc''))
      = Inr (Some ''My File - Google Drive'')"
    unfolding u
    by (simp add: get_url_title_def try_parse_url_def stub_ext_def urlparse_ref_def Let_def
        scheme_chars_def ascii_lower_def py_strip_def py_rstrip_def rstrip_where_def
        py_isspace_def)
  have a3: "suffix ''Google Drive'' ''My File - Google Drive''"
    by (simp add: suffix_to_prefix)
  from get_url_filename_strips_drive_suffix [OF a1 a2 a3]
  obtain r where r: "get_url_filename web_globals ?x None (Some ''abc'') = Inr (Some r)"
    and s: "one_run_stripped ''My File - Google Drive'' r"
    and t: "r = all_trailing_stripped ''My File - Google Drive'' \<longleftrightarrow>
            \<not> ends_with is_separator r" by blast
  have "get_url_filename web_globals ?x None (Some ''abc'') = Inr (Some ''My File'')"
    using a1 a2 a3
    by (simp add: get_url_filename_def Let_def py_rstrip_def py_rstrip_chars_def
        rstrip_where_def py_isspace_def)
  with r have eq: "r = ''My File''" by simp
  have "\<not> ends_with is_separator ''My File''"
    by (simp add: ends_with_def is_separator_def)
  with t eq have "all_trailing_stripped ''My File - Google Drive'' = ''My File''" by simp
  with r s eq show ?thesis by simp
qed

text \<open>
  The claim as stated fails where two separator runs end the title: for
  \<^verbatim>\<open>a - - Google Drive\<close> the filename returned is \<^verbatim>\<open>a -\<close>, which still ends in a
  separator, and not \<^verbatim>\<open>a\<close>, the title without its trailing separators and whitespace.
\<close>

theorem get_url_filename_two_runs_counterexample:
  "get_url_filename web_globals (stub_ext [] [] (Some ''a - - Google Drive'')) None
       (Some ''abc'')
     = Inr (Some ''a -'') \<and>
   all_trailing_stripped ''a - - Google Drive'' = ''a'' \<and>
   ends_with is_separator ''a -''"
  by (simp add: get_url_filename_def url_or_drive_url_def py_format_def
        get_url_title_def try_parse_url_def stub_ext_def urlparse_ref_def Let_def
        scheme_chars_def ascii_lower_def py_strip_def py_rstrip_def py_rstrip_chars_def
        rstrip_where_def py_isspace_def all_trailing_stripped_def is_separator_def
        ends_with_def suffix_to_prefix)

lemma get_url_filename_None_title:
  assumes "prefix ''https://drive.google.com'' (url_or_drive_url url driveid)"
    and "get_url_title g x (url_or_drive_url url driveid) = Inr None"
  shows "get_url_filename g x url driveid = Inl AttributeError"
  using assms by (simp add: get_url_filename_def)

text \<open>
  Claim C6 says that a failed title retrieval makes filename resolution return no
  filename rather than raise. The code raises. When the Drive page has no title,
  \<^verbatim>\<open>get_url_title\<close> returns \<^verbatim>\<open>None\<close> and line 210 raises \<^verbatim>\<open>AttributeError\<close>; when the
  request fails with \<^verbatim>\<open>requests.exceptions.ConnectionError\<close>, evaluating the second
  handler of \<^verbatim>\<open>get_url_title\<close> raises \<^verbatim>\<open>NameError\<close> for \<^verbatim>\<open>InvalidURL\<close>.
\<close>

theorem get_url_filename_absent_title_raises:
  "get_url_title web_globals (stub_ext [] [] None) ''https://drive.google.com/open?id=abc''
     = Inr None \<and>
   get_url_filename web_globals (stub_ext [] [] None) None (Some ''abc'') = Inl AttributeError \<and>
   get_url_filename web_globals
     ((stub_ext [] [] None)\<lparr>fetch_title := \<lambda>u. Inl (LibraryError ''ConnectionError'')\<rparr>)
     None (Some ''abc'') = Inl (NameError ''InvalidURL'')"
  by (simp add: get_url_filename_def url_or_drive_url_def py_format_def
        get_url_title_def try_parse_url_def stub_ext_def urlparse_ref_def Let_def
        scheme_chars_def ascii_lower_def py_strip_def py_rstrip_def rstrip_where_def
        py_isspace_def title_handler_names_def lookup_name_def web_globals_def)

subsection \<open>The chunked writer\<close>

lemma web_globals_unbound:
  "web_globals ''CHUNK_SIZE'' = None" "web_globals ''fileanme'' = None"
  "web_globals ''InvalidURL'' = None" "web_globals ''format_exc'' = None"
  by (simp_all add: web_globals_def)

text \<open>In any namespace, a call that returns a value returns the resolved path.\<close>

lemma save_response_content_path:
  "snd (save_response_content g x fs response filename destination chunksize) = Inr p \<Longrightarrow>
     p = expand_filepath x
           (if path_sep \<in> set filename then filename else path_join destination filename)"
  by (auto simp: save_response_content_def Let_def split: sum.splits pyval.splits)

text \<open>
  Claim C3 says that the body \<^verbatim>\<open>[b"abc", b"", b"def"]\<close> with chunk size 3 yields a file
  holding \<^verbatim>\<open>abcdef\<close>. The code opens (and so empties) the destination and then raises
  \<^verbatim>\<open>NameError\<close> for \<^verbatim>\<open>CHUNK_SIZE\<close>: the file is left empty. Only in a namespace that
  binds \<^verbatim>\<open>CHUNK_SIZE\<close> does the same call write \<^verbatim>\<open>abcdef\<close>.
\<close>

theorem save_response_content_three_chunks:
  "snd (save_response_content web_globals (stub_ext [] [] None) empty_fs
          \<lparr>cookies = [], iter_content = (\<lambda>n. [''abc'', [], ''def''])\<rparr>
          ''out.bin'' ''/tmp'' (Some 3))
     = Inl (NameError ''CHUNK_SIZE'') \<and>
   files (fst (save_response_content web_globals (stub_ext [] [] None) empty_fs
          \<lparr>cookies = [], iter_content = (\<lambda>n. [''abc'', [], ''def''])\<rparr>
          ''out.bin'' ''/tmp'' (Some 3)))
       ''/tmp/out.bin'' = Some [] \<and>
   files (fst (save_response_content (web_globals(''CHUNK_SIZE'' \<mapsto> PyInt 3))
          (stub_ext [] [] None) empty_fs
          \<lparr>cookies = [], iter_content = (\<lambda>n. [''abc'', [], ''def''])\<rparr>
          ''out.bin'' ''/tmp'' (Some 3)))
       ''/tmp/out.bin'' = Some ''abcdef''"
  by (simp add: save_response_content_def Let_def path_sep_def path_join_def stub_ext_def
      expand_ref_def open_wb_def empty_fs_def lookup_name_def web_globals_def write_file_def
      suffix_to_prefix)

text \<open>
  Claim C4 says that the writer resolves the destination path (the filename itself when
  it holds a separator, the join of directory and filename otherwise, then expanded) and
  returns it on completion. The path is computed as claimed, and the file at that path is
  opened; the call then raises \<^verbatim>\<open>NameError\<close> for \<^verbatim>\<open>CHUNK_SIZE\<close> and returns nothing.
\<close>

theorem save_response_content_never_returns_path:
  "snd (save_response_content web_globals (stub_ext [] [] None) empty_fs
          \<lparr>cookies = [], iter_content = (\<lambda>n. [''abc''])\<rparr> ''data.csv'' ''~/downloads'' None)
     = Inl (NameError ''CHUNK_SIZE'') \<and>
   files (fst (save_response_content web_globals (stub_ext [] [] None) empty_fs
          \<lparr>cookies = [], iter_content = (\<lambda>n. [''abc''])\<rparr> ''data.csv'' ''~/downloads'' None))
       ''/home/user/downloads/data.csv'' = Some [] \<and>
   snd (save_response_content web_globals (stub_ext [] [] None) empty_fs
          \<lparr>cookies = [], iter_content = (\<lambda>n. [''abc''])\<rparr> ''/srv/data.csv'' ''~/downloads'' None)
     = Inl (NameError ''CHUNK_SIZE'') \<and>
   files (fst (save_response_content web_globals (stub_ext [] [] None) empty_fs
          \<lparr>cookies = [], iter_content = (\<lambda>n. [''abc''])\<rparr> ''/srv/data.csv'' ''~/downloads'' None))
       ''/srv/data.csv'' = Some []"
  by (simp add: save_response_content_def Let_def path_sep_def path_join_def stub_ext_def
      expand_ref_def open_wb_def empty_fs_def lookup_name_def web_globals_def write_file_def
      suffix_to_prefix)

text \<open>
  Claim C9. The result of \<^verbatim>\<open>save_response_content\<close> does not depend on its
  \<^verbatim>\<open>chunksize\<close> argument; the module binds no global \<^verbatim>\<open>CHUNK_SIZE\<close>; and every call
  that reaches the chunk loop (the destination could be opened) raises \<^verbatim>\<open>NameError\<close>
  for that name.
\<close>

theorem save_response_content_ignores_chunksize:
  "save_response_content g x fs response filename destination c1 =
     save_response_content g x fs response filename destination c2 \<and>
   web_globals ''CHUNK_SIZE'' = None \<and>
   (can_open fs (expand_filepath x
        (if path_sep \<in> set filename then filename else path_join destination filename)) \<longrightarrow>
      snd (save_response_content web_globals x fs response filename destination c1)
        = Inl (NameError ''CHUNK_SIZE''))"
  by (simp add: save_response_content_def Let_def open_wb_def lookup_name_def web_globals_unbound)

theorem save_response_content_ignores_chunksize_witness:
  "snd (save_response_content web_globals (stub_ext [] [] None) empty_fs
          \<lparr>cookies = [], iter_content = (\<lambda>n. [''abc''])\<rparr> ''data.csv'' ''.'' (Some 1))
     = Inl (NameError ''CHUNK_SIZE'')"
  using save_response_content_ignores_chunksize [of web_globals "stub_ext [] [] None" empty_fs
     "\<lparr>cookies = [], iter_content = (\<lambda>n. [''abc''])\<rparr>" "''data.csv''" "''.''" "Some 1" None,
     THEN conjunct2, THEN conjunct2]
  by (simp add: empty_fs_def)

subsection \<open>The download as a whole\<close>

text \<open>
  Claim C10. With the module's own namespace no call completes: the result is always an
  exception, and a call that reaches the save step (extraction, handshake and filename
  resolution all succeeded) raises \<^verbatim>\<open>NameError\<close> for \<^verbatim>\<open>fileanme\<close>, having issued the
  handshake's requests and left the file system untouched. In whatever namespace \<open>g\<close> a
  call does complete, the value returned is \<^verbatim>\<open>os.path.abspath(destination)\<close>, the
  directory, not the path of the file written.
\<close>

theorem download_never_completes:
  "(\<exists>e. snd (snd (download_file_from_google_drive web_globals x fs driveid filename destination))
          = Inl e) \<and>
   (\<forall>sent response resolved.
      download_prelude web_globals x driveid filename = (sent, Inr (response, resolved)) \<longrightarrow>
      download_file_from_google_drive web_globals x fs driveid filename destination
        = (sent, fs, Inl (NameError ''fileanme''))) \<and>
   (\<forall>v. snd (snd (download_file_from_google_drive g x fs driveid filename destination)) = Inr v
        \<longrightarrow> v = abspath x destination)"
proof (intro conjI allI impI)
  show "\<exists>e. snd (snd (download_file_from_google_drive web_globals x fs driveid filename
      destination)) = Inl e"
    by (simp add: download_file_from_google_drive_def lookup_name_def web_globals_unbound
        split: prod.splits sum.splits)
  show "download_file_from_google_drive web_globals x fs driveid filename destination
        = (sent, fs, Inl (NameError ''fileanme''))"
    if "download_prelude web_globals x driveid filename = (sent, Inr (response, resolved))"
    for sent response resolved
    using that
    by (simp add: download_file_from_google_drive_def lookup_name_def web_globals_unbound)
  show "v = abspath x destination"
    if "snd (snd (download_file_from_google_drive g x fs driveid filename destination)) = Inr v"
    for v
    using that
    by (auto simp: download_file_from_google_drive_def split: prod.splits sum.splits pyval.splits)
qed

text \<open>
  A call with an explicit filename reaches the save step and raises; in a namespace that
  binds both missing names the same call writes \<^verbatim>\<open>./f.bin\<close> and returns the directory
  \<^verbatim>\<open>/home/user\<close>.
\<close>

theorem download_never_completes_witness:
  "download_file_from_google_drive web_globals
       (stub_ext [] [''abc''] None) empty_fs ''X'' (Some ''f.bin'') ''.''
     = ([initial_request ''X''], empty_fs, Inl (NameError ''fileanme'')) \<and>
   snd (snd (download_file_from_google_drive
       (web_globals(''CHUNK_SIZE'' \<mapsto> PyInt 32768, ''fileanme'' \<mapsto> PyStr ''f.bin''))
       (stub_ext [] [''abc''] None) empty_fs ''X'' (Some ''f.bin'') ''.''))
     = Inr ''/home/user'' \<and>
   files (fst (snd (download_file_from_google_drive
       (web_globals(''CHUNK_SIZE'' \<mapsto> PyInt 32768, ''fileanme'' \<mapsto> PyStr ''f.bin''))
       (stub_ext [] [''abc''] None) empty_fs ''X'' (Some ''f.bin'') ''.''))) ''./f.bin''
     = Some ''abc''"
proof -
  let ?x = "stub_ext [] [''abc''] None"
  let ?g = "web_globals(''CHUNK_SIZE'' \<mapsto> PyInt 32768, ''fileanme'' \<mapsto> PyStr ''f.bin'')"
  have ex: "extract_driveid ''X'' = Inr ''X''"
    by (simp add: extract_driveid_def sublist_code(3))
  have pre: "download_prelude web_globals ?x ''X'' (Some ''f.bin'')
      = ([initial_request ''X''],
         Inr (\<lparr>cookies = [], iter_content = (\<lambda>n. [''abc''])\<rparr>, Some ''f.bin''))"
    by (simp add: download_prelude_def ex confirmation_handshake_def
        get_response_confirmation_token_def filename_or_resolved_def stub_ext_def)
  have pre': "download_prelude ?g ?x ''X'' (Some ''f.bin'')
      = ([initial_request ''X''],
         Inr (\<lparr>cookies = [], iter_content = (\<lambda>n. [''abc''])\<rparr>, Some ''f.bin''))"
    by (simp add: download_prelude_def ex confirmation_handshake_def
        get_response_confirmation_token_def filename_or_resolved_def stub_ext_def)
  have sv: "save_response_content ?g ?x empty_fs
          \<lparr>cookies = [], iter_content = (\<lambda>n. [''abc''])\<rparr> ''f.bin'' ''.'' (Some 32768)
      = (empty_fs\<lparr>files := (files empty_fs)(''./f.bin'' \<mapsto> ''abc'')\<rparr>, Inr ''./f.bin'')"
    by (simp add: save_response_content_def Let_def path_sep_def path_join_def stub_ext_def
      expand_ref_def open_wb_def empty_fs_def lookup_name_def write_file_def suffix_to_prefix)
  have run: "download_file_from_google_drive ?g ?x empty_fs ''X'' (Some ''f.bin'') ''.''
      = ([initial_request ''X''],
         empty_fs\<lparr>files := (files empty_fs)(''./f.bin'' \<mapsto> ''abc'')\<rparr>,
         Inr (abspath ?x ''.''))"
    by (simp add: download_file_from_google_drive_def pre' lookup_name_def sv)
  have ab: "abspath ?x ''.'' = ''/home/user''"
    by (simp add: stub_ext_def abspath_ref_def)
  note dn = download_never_completes [of ?x empty_fs "''X''" "Some ''f.bin''" "''.''" ?g]
  from dn pre have one: "download_file_from_google_drive web_globals ?x empty_fs ''X''
      (Some ''f.bin'') ''.'' = ([initial_request ''X''], empty_fs, Inl (NameError ''fileanme''))"
    by blast
  from dn run have two: "snd (snd (download_file_from_google_drive ?g ?x empty_fs ''X''
      (Some ''f.bin'') ''.'')) = Inr ''/home/user''"
    unfolding ab [symmetric] by simp
  from one two run show ?thesis by simp
qed

end
